theory Spec2Isabelle
  imports Complex_Main
begin

section \<open>Data model of cvxcore.cpp\<close>

text \<open>
  The C++ type \<open>int\<close> is the 32-bit two's complement integer. Its values are integers
  in the range of \<open>in_int\<close>, and every sum and product that the source computes on \<open>int\<close>
  is written with the wrap-around: \<open>add_int\<close> and \<open>mul_int\<close> return the representative of
  the mathematical result in that range, which is what the compiled code computes when
  the mathematical result does not fit. The C++ type \<open>double\<close> is the type parameter
  \<open>'v\<close>: the triplet code only copies values, and the dense extension only needs a binary
  \<open>+\<close>.
\<close>

definition in_int :: "int \<Rightarrow> bool" where
  "in_int x \<longleftrightarrow> - 2147483648 \<le> x \<and> x < 2147483648"

definition wrap_int :: "int \<Rightarrow> int" where
  "wrap_int x = (x + 2147483648) mod 4294967296 - 2147483648"

definition add_int :: "int \<Rightarrow> int \<Rightarrow> int" where
  "add_int a b = wrap_int (a + b)"

definition mul_int :: "int \<Rightarrow> int \<Rightarrow> int" where
  "mul_int a b = wrap_int (a * b)"

text \<open>
  Fatal outcomes of the source, as values. \<open>LengthMismatch\<close> and \<open>NotMonotone\<close> are the two
  \<open>exit(-1)\<close> paths of the offset validation. \<open>VectorLength\<close> is the exception thrown by
  the constructor \<open>std::vector<ProblemData>(n)\<close> when the \<open>int\<close> count is negative (it
  is converted to an unsigned size beyond \<open>max_size()\<close>). \<open>IndexOutOfRange\<close> stands
  for the unchecked access \<open>const_vec[idx]\<close> outside the vector, which C++ leaves undefined.
\<close>

datatype error = LengthMismatch | NotMonotone | VectorLength | IndexOutOfRange

text \<open>
  Modelled from the spec: the type \<open>Matrix\<close> (declared in Utils.hpp, an Eigen sparse
  matrix) is a Sparse Block, a 2-D sparse matrix of \<open>rows\<close> by \<open>cols\<close> whose structurally
  non-zero entries are reached by \<open>Matrix::InnerIterator it(block, k)\<close> for
  \<open>k < block.outerSize()\<close>. The field \<open>outer\<close> holds, for each outer index \<open>k\<close>, the stored
  entries in the order the inner iterator yields them; each entry gives \<open>it.row()\<close>,
  \<open>it.col()\<close> and \<open>it.value()\<close>.
\<close>

record 'v nonzero =
  row :: int
  col :: int
  val :: 'v

record 'v Matrix =
  rows :: int
  cols :: int
  outer :: "'v nonzero list list"

text \<open>The stored (structurally non-zero) entries of a block, in traversal order.\<close>

definition nonZeros :: "'v Matrix \<Rightarrow> 'v nonzero list" where
  "nonZeros block = concat (outer block)"

text \<open>
  Modelled from the spec: \<open>ProblemData\<close> (ProblemData.hpp) is Coordinate Data, three
  parallel sequences of values, row indices and column indices; this file uses its
  members \<open>V\<close>, \<open>I\<close> and \<open>J\<close>. A default-constructed record has the three empty.
\<close>

record 'v ProblemData =
  V :: "'v list"
  I :: "int list"
  J :: "int list"

definition empty_ProblemData :: "'v ProblemData" where
  "empty_ProblemData = \<lparr>V = [], I = [], J = []\<rparr>"

section \<open>add_matrix_to_vectors\<close>

text \<open>
  The three vectors are passed by reference; the model passes them in and returns them.
  \<open>inner_add\<close> is the loop over the inner iterator, \<open>outer_add\<close> the loop over \<open>k\<close>.
\<close>

fun inner_add ::
  "'v nonzero list \<Rightarrow> int \<Rightarrow> int \<Rightarrow> 'v list \<times> int list \<times> int list
     \<Rightarrow> 'v list \<times> int list \<times> int list" where
  "inner_add [] vert_offset horiz_offset (Vs, Is, Js) = (Vs, Is, Js)"
| "inner_add (it # its) vert_offset horiz_offset (Vs, Is, Js) =
     inner_add its vert_offset horiz_offset
       (Vs @ [val it], Is @ [add_int (row it) vert_offset], Js @ [add_int (col it) horiz_offset])"

fun outer_add ::
  "'v nonzero list list \<Rightarrow> int \<Rightarrow> int \<Rightarrow> 'v list \<times> int list \<times> int list
     \<Rightarrow> 'v list \<times> int list \<times> int list" where
  "outer_add [] vert_offset horiz_offset vecs = vecs"
| "outer_add (inner # rest) vert_offset horiz_offset vecs =
     outer_add rest vert_offset horiz_offset (inner_add inner vert_offset horiz_offset vecs)"

definition add_matrix_to_vectors ::
  "'v Matrix \<Rightarrow> 'v list \<times> int list \<times> int list \<Rightarrow> int \<Rightarrow> int
     \<Rightarrow> 'v list \<times> int list \<times> int list" where
  "add_matrix_to_vectors block vecs vert_offset horiz_offset =
     outer_add (outer block) vert_offset horiz_offset vecs"

section \<open>extend_constant_vec\<close>

text \<open>
  \<open>const_vec[idx] += it.value()\<close> is an unchecked access: the model returns
  \<open>IndexOutOfRange\<close> where \<open>idx\<close> lies outside the vector, and otherwise updates the one
  position. \<open>rws\<close> is the local \<open>rows = block.rows()\<close>.
\<close>

fun inner_extend :: "'v::plus nonzero list \<Rightarrow> int \<Rightarrow> int \<Rightarrow> 'v list \<Rightarrow> error + 'v list" where
  "inner_extend [] rws vert_offset const_vec = Inr const_vec"
| "inner_extend (it # its) rws vert_offset const_vec =
     (let idx = add_int (add_int vert_offset (mul_int (col it) rws)) (row it)
      in if 0 \<le> idx \<and> idx < int (length const_vec)
         then inner_extend its rws vert_offset
                (const_vec[nat idx := const_vec ! nat idx + val it])
         else Inl IndexOutOfRange)"

fun outer_extend ::
  "'v::plus nonzero list list \<Rightarrow> int \<Rightarrow> int \<Rightarrow> 'v list \<Rightarrow> error + 'v list" where
  "outer_extend [] rws vert_offset const_vec = Inr const_vec"
| "outer_extend (inner # rest) rws vert_offset const_vec =
     (case inner_extend inner rws vert_offset const_vec of
        Inl e \<Rightarrow> Inl e
      | Inr const_vec' \<Rightarrow> outer_extend rest rws vert_offset const_vec')"

definition extend_constant_vec :: "'v::plus list \<Rightarrow> int \<Rightarrow> 'v Matrix \<Rightarrow> error + 'v list" where
  "extend_constant_vec const_vec vert_offset block =
     outer_extend (outer block) (rows block) vert_offset const_vec"

text \<open>
  The flattened (column-major) index that \<open>extend_constant_vec\<close> computes for an entry,
  \<open>vert_offset + col * rows + row\<close> in \<open>int\<close> arithmetic.
\<close>

definition flat_index :: "'v Matrix \<Rightarrow> int \<Rightarrow> 'v nonzero \<Rightarrow> int" where
  "flat_index block vert_offset it =
     add_int (add_int vert_offset (mul_int (col it) (rows block))) (row it)"

section \<open>Constraints and the evaluator's result\<close>

text \<open>
  Modelled from the spec: \<open>LinOp\<close> (LinOp.hpp) is an operator-tree node. This file reads
  only its \<open>size\<close>, the Shape (field \<open>size_lin\<close> here); kind, children and data are read
  by the evaluator alone and are the field \<open>node\<close>.
\<close>

record 'n LinOp =
  size_lin :: "int list"
  node :: 'n

text \<open>
  Modelled from the spec: \<open>vecprod\<close> (Utils.hpp) is the flattened size of a Shape, the
  product of its dimensions, 1 for the 0-d shape, computed in \<open>int\<close>.
\<close>

definition vecprod :: "int list \<Rightarrow> int" where
  "vecprod vec = foldl mul_int 1 vec"

text \<open>
  \<open>DictMat\<close> is \<open>std::map<int, std::vector<Matrix>>\<close> and \<open>Tensor\<close> is
  \<open>std::map<int, DictMat>\<close>. The code only iterates over them, so each is the list of
  the map's entries in iteration order. \<open>ProblemTensor\<close> is
  \<open>std::map<int, std::vector<ProblemData>>\<close> and the column map is \<open>std::map<int, int>\<close>;
  both are only accessed with \<open>operator[]\<close> after their creation and are maps. The
  parameter-size map is iterated over and is the list of its entries. In a \<open>std::map\<close>
  the keys of these lists are distinct and ascending; the functions below are defined on
  every list, and a later entry for a key overwrites an earlier one as a repeated
  assignment would.

  The evaluator \<open>lin_to_tensor\<close> (LinOpOperations.hpp) and the constant \<open>CONSTANT_ID\<close>
  (Utils.hpp) are parameters of the functions that use them; the parameter \<open>lin_to_tensor\<close>
  stands for \<open>\<lambda>lin. lin_to_tensor(lin, 0)\<close>. The diagnostic output on \<open>std::cout\<close> is
  not modelled.
\<close>

type_synonym 'v DictMat = "(int \<times> 'v Matrix list) list"
type_synonym 'v Tensor = "(int \<times> 'v DictMat) list"
type_synonym 'v ProblemTensor = "int \<rightharpoonup> 'v ProblemData list"

section \<open>process_constraint\<close>

text \<open>\<open>id_to_col[var_id]\<close>: \<open>std::map::operator[]\<close> inserts the value 0 under a missing key.\<close>

definition index_or_insert :: "(int \<rightharpoonup> int) \<Rightarrow> int \<Rightarrow> int \<times> (int \<rightharpoonup> int)" where
  "index_or_insert id_to_col var_id =
     (case id_to_col var_id of
        Some c \<Rightarrow> (c, id_to_col)
      | None \<Rightarrow> (0, id_to_col(var_id \<mapsto> 0)))"

definition horiz_offset_for ::
  "int \<Rightarrow> int \<Rightarrow> int \<Rightarrow> (int \<rightharpoonup> int) \<Rightarrow> int \<times> (int \<rightharpoonup> int)" where
  "horiz_offset_for CONSTANT_ID var_id var_length id_to_col =
     (if var_id = CONSTANT_ID then (var_length, id_to_col)
      else index_or_insert id_to_col var_id)"

text \<open>
  The body of the loop over \<open>blocks\<close> (source lines 76 to 93). The state is the local
  \<open>probVec\<close> and the column map. \<open>probVec.push_back(probBlock)\<close> copies the still empty
  \<open>probBlock\<close>; \<open>add_matrix_to_vectors\<close> then fills the local \<open>probBlock\<close>, which is the
  first component of the result and goes out of scope at the end of the iteration.
\<close>

definition block_body ::
  "int \<Rightarrow> int \<Rightarrow> int \<Rightarrow> int \<Rightarrow> 'v Matrix \<Rightarrow> 'v ProblemData list \<times> (int \<rightharpoonup> int)
     \<Rightarrow> 'v ProblemData \<times> 'v ProblemData list \<times> (int \<rightharpoonup> int)" where
  "block_body CONSTANT_ID var_id vert_offset var_length block st =
     (case st of (probVec, id_to_col) \<Rightarrow>
        (case horiz_offset_for CONSTANT_ID var_id var_length id_to_col of
           (horiz_offset, id_to_col') \<Rightarrow>
             (let probBlock = empty_ProblemData;
                  probVec' = probVec @ [probBlock]
              in (case add_matrix_to_vectors block (V probBlock, I probBlock, J probBlock)
                         vert_offset horiz_offset of
                    (Vs, Is, Js) \<Rightarrow>
                      (probBlock\<lparr>V := Vs, I := Is, J := Js\<rparr>, probVec', id_to_col')))))"

fun blocks_loop ::
  "int \<Rightarrow> int \<Rightarrow> int \<Rightarrow> int \<Rightarrow> 'v Matrix list \<Rightarrow> 'v ProblemData list \<times> (int \<rightharpoonup> int)
     \<Rightarrow> 'v ProblemData list \<times> (int \<rightharpoonup> int)" where
  "blocks_loop CONSTANT_ID var_id vert_offset var_length [] st = st"
| "blocks_loop CONSTANT_ID var_id vert_offset var_length (block # blocks) st =
     blocks_loop CONSTANT_ID var_id vert_offset var_length blocks
       (snd (block_body CONSTANT_ID var_id vert_offset var_length block st))"

fun var_map_loop ::
  "int \<Rightarrow> int \<Rightarrow> int \<Rightarrow> 'v DictMat \<Rightarrow> 'v ProblemData list \<times> (int \<rightharpoonup> int)
     \<Rightarrow> 'v ProblemData list \<times> (int \<rightharpoonup> int)" where
  "var_map_loop CONSTANT_ID vert_offset var_length [] st = st"
| "var_map_loop CONSTANT_ID vert_offset var_length ((var_id, blocks) # rest) st =
     var_map_loop CONSTANT_ID vert_offset var_length rest
       (blocks_loop CONSTANT_ID var_id vert_offset var_length blocks st)"

text \<open>
  The loop over \<open>coeffs\<close>. \<open>problemData[param_id] = probVec\<close> stores a copy of the empty
  local vector; the local \<open>probVec\<close> that the inner loops extend is dropped at the end of
  the iteration, and only the column map is carried on.
\<close>

fun coeffs_loop ::
  "int \<Rightarrow> int \<Rightarrow> int \<Rightarrow> 'v Tensor \<Rightarrow> 'v ProblemTensor \<times> (int \<rightharpoonup> int)
     \<Rightarrow> 'v ProblemTensor \<times> (int \<rightharpoonup> int)" where
  "coeffs_loop CONSTANT_ID vert_offset var_length [] st = st"
| "coeffs_loop CONSTANT_ID vert_offset var_length ((param_id, var_map) # rest) st =
     (case st of (problemData, id_to_col) \<Rightarrow>
        (let probVec = [];
             problemData' = problemData(param_id \<mapsto> probVec)
         in (case var_map_loop CONSTANT_ID vert_offset var_length var_map (probVec, id_to_col) of
               (probVec', id_to_col') \<Rightarrow>
                 coeffs_loop CONSTANT_ID vert_offset var_length rest (problemData', id_to_col'))))"

text \<open>
  \<open>problemData\<close> and \<open>id_to_col\<close> are passed by reference: both are returned.
  \<open>vert_offset\<close> is passed by reference too and never assigned.
\<close>

definition process_constraint ::
  "('n LinOp \<Rightarrow> 'v Tensor) \<Rightarrow> int \<Rightarrow> 'n LinOp \<Rightarrow> 'v ProblemTensor \<Rightarrow> int \<Rightarrow> int
     \<Rightarrow> (int \<rightharpoonup> int) \<Rightarrow> 'v ProblemTensor \<times> (int \<rightharpoonup> int)" where
  "process_constraint lin_to_tensor CONSTANT_ID lin problemData vert_offset var_length id_to_col =
     (let coeffs = lin_to_tensor lin
      in coeffs_loop CONSTANT_ID vert_offset var_length coeffs (problemData, id_to_col))"

section \<open>get_total_constraint_length\<close>

fun total_loop :: "'n LinOp list \<Rightarrow> int \<Rightarrow> int" where
  "total_loop [] result = result"
| "total_loop (constr # rest) result = total_loop rest (add_int result (vecprod (size_lin constr)))"

definition get_total_constraint_length :: "'n LinOp list \<Rightarrow> int" where
  "get_total_constraint_length constraints = total_loop constraints 0"

text \<open>
  The overload with user-provided offsets. The loop runs over the index \<open>i\<close> as in the
  source; \<open>constraints ! i\<close> is in range there because the lengths were compared first.
\<close>

function offsets_loop :: "'n LinOp list \<Rightarrow> int list \<Rightarrow> nat \<Rightarrow> int \<Rightarrow> error + int" where
  "offsets_loop constraints constr_offsets i offset_end =
     (if i < length constr_offsets
      then (let constr = constraints ! i;
                offset_start = constr_offsets ! i;
                offset_end' = add_int offset_start (vecprod (size_lin constr))
            in if i + 1 < length constr_offsets \<and> constr_offsets ! (i + 1) < offset_end'
               then Inl NotMonotone
               else offsets_loop constraints constr_offsets (i + 1) offset_end')
      else Inr offset_end)"
  by pat_completeness auto
termination
  by (relation "measure (\<lambda>(constraints, constr_offsets, i, offset_end). length constr_offsets - i)")
     auto

declare offsets_loop.simps [simp del]

definition get_total_constraint_length_offsets ::
  "'n LinOp list \<Rightarrow> int list \<Rightarrow> error + int" where
  "get_total_constraint_length_offsets constraints constr_offsets =
     (if length constraints \<noteq> length constr_offsets then Inl LengthMismatch
      else offsets_loop constraints constr_offsets 0 0)"

section \<open>init_data_tensor\<close>

fun init_loop :: "(int \<times> int) list \<Rightarrow> 'v ProblemTensor \<Rightarrow> error + 'v ProblemTensor" where
  "init_loop [] output = Inr output"
| "init_loop ((param_id, param_size) # rest) output =
     (if param_size < 0 then Inl VectorLength
      else (let data_block = replicate (nat param_size) empty_ProblemData
            in init_loop rest (output(param_id \<mapsto> data_block))))"

definition init_data_tensor :: "(int \<times> int) list \<Rightarrow> error + 'v ProblemTensor" where
  "init_data_tensor param_to_size = init_loop param_to_size Map.empty"

section \<open>build_matrix\<close>

fun build_loop ::
  "('n LinOp \<Rightarrow> 'v Tensor) \<Rightarrow> int \<Rightarrow> int \<Rightarrow> 'n LinOp list \<Rightarrow> int
     \<Rightarrow> 'v ProblemTensor \<times> (int \<rightharpoonup> int) \<Rightarrow> 'v ProblemTensor \<times> (int \<rightharpoonup> int)" where
  "build_loop lin_to_tensor CONSTANT_ID var_length [] vert_offset st = st"
| "build_loop lin_to_tensor CONSTANT_ID var_length (constr # rest) vert_offset st =
     (case st of (prob_data, id_to_col) \<Rightarrow>
        build_loop lin_to_tensor CONSTANT_ID var_length rest
          (add_int vert_offset (vecprod (size_lin constr)))
          (process_constraint lin_to_tensor CONSTANT_ID constr prob_data
             vert_offset var_length id_to_col))"

text \<open>
  \<open>id_to_col\<close> is passed by value: the function works on its own copy, which it threads
  through the calls of \<open>process_constraint\<close> and drops on return.
\<close>

definition build_matrix ::
  "('n LinOp \<Rightarrow> 'v Tensor) \<Rightarrow> int \<Rightarrow> 'n LinOp list \<Rightarrow> int \<Rightarrow> (int \<rightharpoonup> int)
     \<Rightarrow> (int \<times> int) list \<Rightarrow> error + 'v ProblemTensor" where
  "build_matrix lin_to_tensor CONSTANT_ID constraints var_length id_to_col param_to_size =
     (case init_data_tensor param_to_size of
        Inl e \<Rightarrow> Inl e
      | Inr prob_data \<Rightarrow>
          (let num_rows = get_total_constraint_length constraints
           in Inr (fst (build_loop lin_to_tensor CONSTANT_ID var_length constraints 0
                          (prob_data, id_to_col)))))"

text \<open>
  The overload with \<open>constr_offsets\<close>. The loop index \<open>i\<close> is kept; \<open>constr_offsets ! i\<close>
  is in range because \<open>get_total_constraint_length\<close> has compared the lengths.
\<close>

fun build_loop_offsets ::
  "('n LinOp \<Rightarrow> 'v Tensor) \<Rightarrow> int \<Rightarrow> int \<Rightarrow> int list \<Rightarrow> 'n LinOp list \<Rightarrow> nat
     \<Rightarrow> 'v ProblemTensor \<times> (int \<rightharpoonup> int) \<Rightarrow> 'v ProblemTensor \<times> (int \<rightharpoonup> int)" where
  "build_loop_offsets lin_to_tensor CONSTANT_ID var_length constr_offsets [] i st = st"
| "build_loop_offsets lin_to_tensor CONSTANT_ID var_length constr_offsets (constr # rest) i st =
     (case st of (prob_data, id_to_col) \<Rightarrow>
        (let vert_offset = constr_offsets ! i
         in build_loop_offsets lin_to_tensor CONSTANT_ID var_length constr_offsets rest (i + 1)
              (process_constraint lin_to_tensor CONSTANT_ID constr prob_data
                 vert_offset var_length id_to_col)))"

definition build_matrix_offsets ::
  "('n LinOp \<Rightarrow> 'v Tensor) \<Rightarrow> int \<Rightarrow> 'n LinOp list \<Rightarrow> int \<Rightarrow> (int \<rightharpoonup> int)
     \<Rightarrow> (int \<times> int) list \<Rightarrow> int list \<Rightarrow> error + 'v ProblemTensor" where
  "build_matrix_offsets lin_to_tensor CONSTANT_ID constraints var_length id_to_col
       param_to_size constr_offsets =
     (case init_data_tensor param_to_size of
        Inl e \<Rightarrow> Inl e
      | Inr prob_data \<Rightarrow>
          (case get_total_constraint_length_offsets constraints constr_offsets of
             Inl e \<Rightarrow> Inl e
           | Inr num_rows \<Rightarrow>
               Inr (fst (build_loop_offsets lin_to_tensor CONSTANT_ID var_length constr_offsets
                           constraints 0 (prob_data, id_to_col)))))"

section \<open>Notions of the specification\<close>

text \<open>
  The flattened size of a constraint: the product of its dimensions, as a mathematical
  integer.
\<close>

definition flat_size :: "'n LinOp \<Rightarrow> int" where
  "flat_size constr = prod_list (size_lin constr)"

text \<open>
  The sequential running sums, in the words of the specification: the offset of
  constraint \<open>i\<close> is the sum of the flattened sizes of the constraints \<open>0..i-1\<close>. The
  offsets passed to \<open>build_matrix\<close> are values of type \<open>int\<close>, so each sum is taken in
  \<open>int\<close>; it is the mathematical sum whenever that fits.
\<close>

definition sequential_offsets :: "'n LinOp list \<Rightarrow> int list" where
  "sequential_offsets constraints =
     map (\<lambda>i. wrap_int (sum_list (map flat_size (take i constraints))))
       [0..<length constraints]"

text \<open>
  Constraint \<open>i + 1\<close> starts before constraint \<open>i\<close> ends: \<open>overlap_at\<close> with the
  mathematical end of constraint \<open>i\<close>, \<open>overlap_int\<close> with the end as the source computes
  it in \<open>int\<close>. \<open>ends_in_int\<close> says that the end of every constraint fits in \<open>int\<close>.
\<close>

definition overlap_at :: "'n LinOp list \<Rightarrow> int list \<Rightarrow> nat \<Rightarrow> bool" where
  "overlap_at constraints constr_offsets i \<longleftrightarrow>
     i + 1 < length constr_offsets \<and>
     constr_offsets ! (i + 1) < constr_offsets ! i + flat_size (constraints ! i)"

definition overlap_int :: "'n LinOp list \<Rightarrow> int list \<Rightarrow> nat \<Rightarrow> bool" where
  "overlap_int constraints constr_offsets i \<longleftrightarrow>
     i + 1 < length constr_offsets \<and>
     constr_offsets ! (i + 1) <
       add_int (constr_offsets ! i) (vecprod (size_lin (constraints ! i)))"

definition ends_in_int :: "'n LinOp list \<Rightarrow> int list \<Rightarrow> bool" where
  "ends_in_int constraints constr_offsets \<longleftrightarrow>
     (\<forall>i. i < length constr_offsets \<and> i < length constraints \<longrightarrow>
          in_int (constr_offsets ! i + flat_size (constraints ! i)))"

text \<open>
  The positions that \<open>extend_constant_vec\<close> may write: an entry is in range when its
  flattened index lies inside a vector of length \<open>n\<close>. \<open>added_at\<close> lists, in traversal
  order, the values of the entries whose flattened index is \<open>p\<close>; \<open>added_values\<close> is the
  same for the stored entries of a block.
\<close>

definition in_range :: "int \<Rightarrow> int \<Rightarrow> nat \<Rightarrow> 'v nonzero \<Rightarrow> bool" where
  "in_range rws vo n it \<longleftrightarrow>
     0 \<le> add_int (add_int vo (mul_int (col it) rws)) (row it) \<and>
     add_int (add_int vo (mul_int (col it) rws)) (row it) < int n"

definition added_at :: "int \<Rightarrow> int \<Rightarrow> 'v nonzero list \<Rightarrow> nat \<Rightarrow> 'v list" where
  "added_at rws vo its p =
     map val (filter (\<lambda>it. add_int (add_int vo (mul_int (col it) rws)) (row it) = int p) its)"

definition added_values :: "'v Matrix \<Rightarrow> int \<Rightarrow> nat \<Rightarrow> 'v list" where
  "added_values block vert_offset p =
     map val (filter (\<lambda>it. flat_index block vert_offset it = int p) (nonZeros block))"

text \<open>
  The variable ids that \<open>process_constraint\<close> looks up in the column map for one inner
  map of the evaluator's result: those other than \<open>CONSTANT_ID\<close> that come with at least
  one block (the lookup is inside the loop over the blocks).
\<close>

definition looked_up :: "int \<Rightarrow> 'v DictMat \<Rightarrow> int \<Rightarrow> bool" where
  "looked_up cid var_map w \<longleftrightarrow> w \<noteq> cid \<and> (\<exists>blocks. (w, blocks) \<in> set var_map \<and> blocks \<noteq> [])"

text \<open>A tensor none of whose Coordinate Data entries holds a triplet.\<close>

definition no_triplets :: "'v ProblemTensor \<Rightarrow> bool" where
  "no_triplets T \<longleftrightarrow>
     (\<forall>k pds. T k = Some pds \<longrightarrow> (\<forall>pd\<in>set pds. V pd = [] \<and> I pd = [] \<and> J pd = []))"

section \<open>Example inputs\<close>

text \<open>
  A block of 2 rows and 1 column with one stored entry; two constraints, of shape (2,1)
  and (3,1); an evaluator that returns, for parameter 7, the block once for the constant
  (\<open>CONSTANT_ID\<close> is \<open>-1\<close> in the examples) and once for variable 4. Two more blocks
  hold the values 3 and -1 at the same position. The values are of type \<open>real\<close>.
\<close>

definition ex_block :: "real Matrix" where
  "ex_block = \<lparr>rows = 2, cols = 1, outer = [[\<lparr>row = 0, col = 0, val = 5\<rparr>]]\<rparr>"

definition ex_lin :: "unit LinOp" where
  "ex_lin = \<lparr>size_lin = [2, 1], node = ()\<rparr>"

definition ex_lin3 :: "unit LinOp" where
  "ex_lin3 = \<lparr>size_lin = [3, 1], node = ()\<rparr>"

definition ex_lin_to_tensor :: "unit LinOp \<Rightarrow> real Tensor" where
  "ex_lin_to_tensor lin = [(7, [(-1, [ex_block]), (4, [ex_block])])]"

definition ex_block_3 :: "real Matrix" where
  "ex_block_3 = \<lparr>rows = 2, cols = 1, outer = [[\<lparr>row = 0, col = 0, val = 3\<rparr>]]\<rparr>"

definition ex_block_m1 :: "real Matrix" where
  "ex_block_m1 = \<lparr>rows = 2, cols = 1, outer = [[\<lparr>row = 0, col = 0, val = - 1\<rparr>]]\<rparr>"

section \<open>Arithmetic on int\<close>

lemma wrap_int_id: "in_int x \<Longrightarrow> wrap_int x = x"
  by (simp add: wrap_int_def in_int_def)

lemma in_int_wrap_int: "in_int (wrap_int x)"
  by (simp add: wrap_int_def in_int_def)

lemma wrap_int_mod: "wrap_int x mod 4294967296 = x mod 4294967296"
proof -
  have "wrap_int x mod 4294967296 = ((x + 2147483648) mod 4294967296 - 2147483648) mod 4294967296"
    by (simp add: wrap_int_def)
  also have "\<dots> = (x + 2147483648 - 2147483648) mod 4294967296"
    by (rule mod_diff_left_eq)
  finally show ?thesis by simp
qed

lemma wrap_int_cong: "a mod 4294967296 = b mod 4294967296 \<Longrightarrow> wrap_int a = wrap_int b"
  unfolding wrap_int_def by (metis mod_add_left_eq)

lemma wrap_int_add_left: "wrap_int (wrap_int a + b) = wrap_int (a + b)"
  by (rule wrap_int_cong) (metis mod_add_left_eq wrap_int_mod)

lemma wrap_int_add_right: "wrap_int (a + wrap_int b) = wrap_int (a + b)"
  by (rule wrap_int_cong) (metis mod_add_right_eq wrap_int_mod)

lemma wrap_int_mult_left: "wrap_int (wrap_int a * b) = wrap_int (a * b)"
  by (rule wrap_int_cong) (metis mod_mult_left_eq wrap_int_mod)

lemma wrap_int_mult_right: "wrap_int (a * wrap_int b) = wrap_int (a * b)"
  by (rule wrap_int_cong) (metis mod_mult_right_eq wrap_int_mod)

lemma wrap_int_wrap_int: "wrap_int (wrap_int x) = wrap_int x"
  by (simp add: wrap_int_id in_int_wrap_int)

lemma add_int_exact: "in_int (a + b) \<Longrightarrow> add_int a b = a + b"
  by (simp add: add_int_def wrap_int_id)

lemma vecprod_foldl: "foldl mul_int (wrap_int a) ds = wrap_int (a * prod_list ds)"
proof (induction ds arbitrary: a)
  case Nil
  then show ?case by simp
next
  case (Cons d ds)
  have "foldl mul_int (wrap_int a) (d # ds) = foldl mul_int (wrap_int (a * d)) ds"
    by (simp add: mul_int_def wrap_int_mult_left)
  then show ?case by (simp add: Cons.IH mult.assoc)
qed

lemma vecprod_wrap: "vecprod ds = wrap_int (prod_list ds)"
  using vecprod_foldl [of 1 ds] by (simp add: vecprod_def wrap_int_id in_int_def)

lemma vecprod_flat_size: "vecprod (size_lin c) = wrap_int (flat_size c)"
  by (simp add: vecprod_wrap flat_size_def)

lemma end_int: "add_int a (vecprod (size_lin c)) = wrap_int (a + flat_size c)"
  by (simp add: add_int_def vecprod_flat_size wrap_int_add_right)

section \<open>Properties of add_matrix_to_vectors\<close>

lemma inner_add_append:
  "inner_add its v h (Vs, Is, Js) =
     (Vs @ map val its, Is @ map (\<lambda>e. add_int (row e) v) its,
      Js @ map (\<lambda>e. add_int (col e) h) its)"
  by (induction its arbitrary: Vs Is Js) simp_all

lemma outer_add_append:
  "outer_add os v h (Vs, Is, Js) =
     (Vs @ map val (concat os), Is @ map (\<lambda>e. add_int (row e) v) (concat os),
      Js @ map (\<lambda>e. add_int (col e) h) (concat os))"
  by (induction os arbitrary: Vs Is Js) (simp_all add: inner_add_append)

lemma add_matrix_to_vectors_int:
  "add_matrix_to_vectors block (Vs, Is, Js) v h =
     (Vs @ map val (nonZeros block),
      Is @ map (\<lambda>e. add_int (row e) v) (nonZeros block),
      Js @ map (\<lambda>e. add_int (col e) h) (nonZeros block))"
  by (simp add: add_matrix_to_vectors_def nonZeros_def outer_add_append)

text \<open>
  C7. \<open>add_matrix_to_vectors\<close> leaves the old contents of the three sequences in place as
  a prefix and appends, for the stored entries of the block in traversal order, each one
  exactly once, the value, the row plus the vertical offset and the column plus the
  horizontal offset, the sums being those of \<open>int\<close>: they are the mathematical sums
  \<open>row + vert_offset\<close> and \<open>col + horiz_offset\<close> when these fit in \<open>int\<close>. Nothing is
  merged: the three sequences each grow by the number of stored entries, and a second
  call on the result appends its own triplets after the first call's, whatever positions
  they share.
\<close>

theorem add_matrix_to_vectors_appends:
  assumes "\<forall>e\<in>set (nonZeros block). in_int (row e + v) \<and> in_int (col e + h)"
  shows "add_matrix_to_vectors block (Vs, Is, Js) v h =
     (Vs @ map val (nonZeros block),
      Is @ map (\<lambda>e. row e + v) (nonZeros block),
      Js @ map (\<lambda>e. col e + h) (nonZeros block))
   \<and> add_matrix_to_vectors block (Vs, Is, Js) v h =
     (Vs @ map val (nonZeros block),
      Is @ map (\<lambda>e. add_int (row e) v) (nonZeros block),
      Js @ map (\<lambda>e. add_int (col e) h) (nonZeros block))
   \<and> length (fst (add_matrix_to_vectors block (Vs, Is, Js) v h)) =
       length Vs + length (nonZeros block)
   \<and> ((\<forall>e\<in>set (nonZeros block2). in_int (row e + v2) \<and> in_int (col e + h2)) \<longrightarrow>
       add_matrix_to_vectors block2 (add_matrix_to_vectors block (Vs, Is, Js) v h) v2 h2 =
         (Vs @ map val (nonZeros block) @ map val (nonZeros block2),
          Is @ map (\<lambda>e. row e + v) (nonZeros block) @ map (\<lambda>e. row e + v2) (nonZeros block2),
          Js @ map (\<lambda>e. col e + h) (nonZeros block) @ map (\<lambda>e. col e + h2) (nonZeros block2)))"
proof -
  have exact: "map (\<lambda>e. add_int (row e) a) (nonZeros b) = map (\<lambda>e. row e + a) (nonZeros b)
      \<and> map (\<lambda>e. add_int (col e) c) (nonZeros b) = map (\<lambda>e. col e + c) (nonZeros b)"
    if "\<forall>e\<in>set (nonZeros b). in_int (row e + a) \<and> in_int (col e + c)"
    for a c and b :: "'a Matrix"
    using that by (simp add: add_int_exact)
  show ?thesis
    using exact [OF assms] exact [of block2 v2 h2]
    by (simp add: add_matrix_to_vectors_int)
qed

theorem add_matrix_to_vectors_appends_witness:
  "add_matrix_to_vectors ex_block ([1], [0], [0]) 2 3 = ([1, 5], [0, 2], [0, 3])
   \<and> add_matrix_to_vectors ex_block (add_matrix_to_vectors ex_block ([1], [0], [0]) 2 3) 2 3
       = ([1, 5, 5], [0, 2, 2], [0, 3, 3])"
proof -
  have h: "\<forall>e\<in>set (nonZeros ex_block). in_int (row e + 2) \<and> in_int (col e + 3)"
    by (simp add: nonZeros_def ex_block_def in_int_def)
  have n: "nonZeros ex_block = [\<lparr>row = 0, col = 0, val = 5\<rparr>]"
    by (simp add: nonZeros_def ex_block_def)
  note t = add_matrix_to_vectors_appends [OF h, where Vs = "[1]" and Is = "[0]" and Js = "[0]"
      and ?block2.0 = ex_block and ?v2.0 = 2 and ?h2.0 = 3]
  from t have "add_matrix_to_vectors ex_block ([1], [0], [0]) 2 3 = ([1, 5], [0, 2], [0, 3])"
    by (simp add: n)
  moreover
  have "add_matrix_to_vectors ex_block (add_matrix_to_vectors ex_block ([1], [0], [0]) 2 3) 2 3
       = ([1, 5, 5], [0, 2, 2], [0, 3, 3])"
    using t [THEN conjunct2, THEN conjunct2, THEN conjunct2, THEN mp, OF h]
    by (simp add: n)
  ultimately show ?thesis by simp
qed

section \<open>Offsets\<close>

lemma total_loop_sum: "total_loop cs (wrap_int r) = wrap_int (r + sum_list (map flat_size cs))"
proof (induction cs arbitrary: r)
  case Nil
  then show ?case by simp
next
  case (Cons c cs)
  have "add_int (wrap_int r) (vecprod (size_lin c)) = wrap_int (r + flat_size c)"
    by (simp add: end_int wrap_int_add_left)
  then show ?case by (simp add: Cons.IH add.assoc)
qed

lemma get_total_constraint_length_int:
  "get_total_constraint_length cs = wrap_int (sum_list (map flat_size cs))"
  using total_loop_sum [of cs 0]
  by (simp add: get_total_constraint_length_def wrap_int_id in_int_def)

text \<open>
  C9. The sequential-mode total returned by \<open>get_total_constraint_length\<close> is the sum,
  over the list in order, of the flattened sizes of the constraints, the flattened size
  being the product of the dimensions, whenever that sum fits in \<open>int\<close> (in every case it
  is that sum reduced into the range of \<open>int\<close>); for the empty list it is 0. The function
  returns an \<open>int\<close> on every input (it has no failing path, so nothing is validated) and,
  the list being passed by value, it has no other effect.
\<close>

theorem get_total_constraint_length_sum:
  assumes "in_int (\<Sum>c\<leftarrow>constraints. prod_list (size_lin c))"
  shows "get_total_constraint_length constraints = (\<Sum>c\<leftarrow>constraints. prod_list (size_lin c))
   \<and> get_total_constraint_length constraints =
       wrap_int (\<Sum>c\<leftarrow>constraints. prod_list (size_lin c))
   \<and> get_total_constraint_length ([] :: 'n LinOp list) = 0"
proof -
  have m: "map flat_size constraints = map (\<lambda>c. prod_list (size_lin c)) constraints"
    by (simp add: flat_size_def)
  have e: "get_total_constraint_length ([] :: 'n LinOp list) = 0"
    by (simp add: get_total_constraint_length_def)
  show ?thesis
    using assms e by (simp add: get_total_constraint_length_int m wrap_int_id)
qed

theorem get_total_constraint_length_sum_witness:
  "get_total_constraint_length [ex_lin, ex_lin3] = 5"
proof -
  have h: "in_int (\<Sum>c\<leftarrow>[ex_lin, ex_lin3]. prod_list (size_lin c))"
    by (simp add: ex_lin_def ex_lin3_def in_int_def)
  have "get_total_constraint_length [ex_lin, ex_lin3] =
          (\<Sum>c\<leftarrow>[ex_lin, ex_lin3]. prod_list (size_lin c))"
    using get_total_constraint_length_sum [OF h] by (rule conjunct1)
  then show ?thesis by (simp add: ex_lin_def ex_lin3_def)
qed

lemma offsets_loop_char:
  "offsets_loop cs offs i e =
     (if \<exists>j\<ge>i. overlap_int cs offs j then Inl NotMonotone
      else Inr (if i < length offs
                then add_int (offs ! (length offs - 1))
                       (vecprod (size_lin (cs ! (length offs - 1))))
                else e))"
proof (induction cs offs i e rule: offsets_loop.induct)
  case (1 cs offs i e)
  let ?end = "add_int (offs ! i) (vecprod (size_lin (cs ! i)))"
  show ?case
  proof (cases "i < length offs")
    case False
    then have "\<not> (\<exists>j\<ge>i. overlap_int cs offs j)" by (auto simp: overlap_int_def)
    with False show ?thesis by (subst offsets_loop.simps) simp
  next
    case True
    show ?thesis
    proof (cases "overlap_int cs offs i")
      case ov: True
      then have "\<exists>j\<ge>i. overlap_int cs offs j" by blast
      moreover from ov True have "offsets_loop cs offs i e = Inl NotMonotone"
        by (subst offsets_loop.simps) (simp add: overlap_int_def Let_def)
      ultimately show ?thesis by simp
    next
      case nov: False
      have step: "offsets_loop cs offs i e = offsets_loop cs offs (i + 1) ?end"
        using True nov by (subst offsets_loop.simps) (auto simp add: overlap_int_def Let_def)
      have ex: "(\<exists>j\<ge>i. overlap_int cs offs j) \<longleftrightarrow> (\<exists>j\<ge>i+1. overlap_int cs offs j)"
        using nov by (metis Suc_eq_plus1 Suc_leD Suc_leI le_neq_implies_less)
      have ncond: "\<not> (i + 1 < length offs \<and> offs ! (i + 1) < ?end)"
        using nov by (simp add: overlap_int_def)
      have ih: "offsets_loop cs offs (i + 1) ?end =
        (if \<exists>j\<ge>i+1. overlap_int cs offs j then Inl NotMonotone
         else Inr (if i + 1 < length offs
                   then add_int (offs ! (length offs - 1))
                          (vecprod (size_lin (cs ! (length offs - 1))))
                   else ?end))"
        using "1.IH"[OF True refl refl refl ncond] .
      have last: "\<not> i + 1 < length offs \<Longrightarrow> i = length offs - 1" using True by simp
      show ?thesis unfolding step ih ex using True last by auto
    qed
  qed
qed

lemma get_total_constraint_length_offsets_int:
  "get_total_constraint_length_offsets cs offs =
     (if length offs \<noteq> length cs then Inl LengthMismatch
      else if \<exists>i. overlap_int cs offs i then Inl NotMonotone
      else Inr (if cs = [] then 0
                else add_int (last offs) (vecprod (size_lin (last cs)))))"
proof (cases "length offs = length cs")
  case False
  then show ?thesis by (auto simp: get_total_constraint_length_offsets_def)
next
  case True
  then have l: "cs \<noteq> [] \<Longrightarrow> offs ! (length offs - 1) = last offs
      \<and> cs ! (length offs - 1) = last cs"
    by (metis last_conv_nth length_0_conv)
  show ?thesis
    using True l
    by (auto simp: get_total_constraint_length_offsets_def offsets_loop_char)
qed

lemma overlap_int_exact:
  assumes "ends_in_int cs offs" and "length offs = length cs"
  shows "overlap_int cs offs i \<longleftrightarrow> overlap_at cs offs i"
proof (cases "i + 1 < length offs")
  case False
  then show ?thesis by (simp add: overlap_int_def overlap_at_def)
next
  case True
  then have "in_int (offs ! i + flat_size (cs ! i))"
    using assms by (simp add: ends_in_int_def)
  then show ?thesis
    by (simp add: overlap_int_def overlap_at_def end_int wrap_int_id)
qed

lemma last_end_exact:
  assumes "ends_in_int cs offs" and "length offs = length cs" and "cs \<noteq> []"
  shows "add_int (last offs) (vecprod (size_lin (last cs))) = last offs + flat_size (last cs)"
proof -
  have n: "length offs - 1 < length offs" "length offs - 1 < length cs"
    using assms by simp_all
  have "offs \<noteq> []" using assms by auto
  then have "last offs = offs ! (length offs - 1)" "last cs = cs ! (length offs - 1)"
    using assms by (simp_all add: last_conv_nth)
  moreover have "in_int (offs ! (length offs - 1) + flat_size (cs ! (length offs - 1)))"
    using assms(1) n by (simp add: ends_in_int_def)
  ultimately show ?thesis by (simp add: end_int wrap_int_id)
qed

text \<open>
  C5. With user-provided offsets, \<open>get_total_constraint_length\<close> fails with the length
  mismatch error when the two lists differ in length; otherwise it fails with the
  ordering error when some next offset is strictly less than an offset plus the flattened
  size of its constraint; otherwise it raises no error and returns the last offset plus
  the flattened size of the last constraint (0 for the empty list, which has no last
  constraint). The sums are the mathematical ones under the hypothesis that the end of
  every constraint, its offset plus its flattened size, fits in \<open>int\<close>.
\<close>

theorem get_total_constraint_length_offsets_cases:
  assumes "ends_in_int constraints constr_offsets"
  shows "get_total_constraint_length_offsets constraints constr_offsets =
     (if length constr_offsets \<noteq> length constraints then Inl LengthMismatch
      else if \<exists>i. i + 1 < length constr_offsets \<and>
                 constr_offsets ! (i + 1) < constr_offsets ! i + flat_size (constraints ! i)
      then Inl NotMonotone
      else Inr (if constraints = [] then 0
                else last constr_offsets + flat_size (last constraints)))"
proof (cases "length constr_offsets = length constraints")
  case False
  then show ?thesis by (simp add: get_total_constraint_length_offsets_int)
next
  case True
  have o: "(\<exists>i. overlap_int constraints constr_offsets i) \<longleftrightarrow>
      (\<exists>i. i + 1 < length constr_offsets \<and>
         constr_offsets ! (i + 1) < constr_offsets ! i + flat_size (constraints ! i))"
    using overlap_int_exact [OF assms True] by (simp add: overlap_at_def)
  show ?thesis
    using True o last_end_exact [OF assms True]
    by (simp add: get_total_constraint_length_offsets_int)
qed

theorem get_total_constraint_length_offsets_cases_witness:
  "get_total_constraint_length_offsets [ex_lin, ex_lin3] [0, 2] = Inr 5
   \<and> get_total_constraint_length_offsets [ex_lin, ex_lin3] [0, 1] = Inl NotMonotone
   \<and> get_total_constraint_length_offsets [ex_lin, ex_lin3] [0] = Inl LengthMismatch"
proof -
  have f: "flat_size ex_lin = 2" "flat_size ex_lin3 = 3"
    by (simp_all add: flat_size_def ex_lin_def ex_lin3_def)
  have h: "ends_in_int [ex_lin, ex_lin3] offs" if "offs = [0, 2] \<or> offs = [0, 1] \<or> offs = [0]"
    for offs
    using that by (auto simp add: ends_in_int_def f in_int_def less_Suc_eq nth_Cons')
  have a: "get_total_constraint_length_offsets [ex_lin, ex_lin3] [0, 2] = Inr 5"
    using get_total_constraint_length_offsets_cases [OF h, of "[0, 2]"]
    by (simp add: f less_Suc_eq)
  have b: "get_total_constraint_length_offsets [ex_lin, ex_lin3] [0, 1] = Inl NotMonotone"
    using get_total_constraint_length_offsets_cases [OF h, of "[0, 1]"]
    by (simp add: f)
  have c: "get_total_constraint_length_offsets [ex_lin, ex_lin3] [0] = Inl LengthMismatch"
    using get_total_constraint_length_offsets_cases [OF h, of "[0]"]
    by simp
  from a b c show ?thesis by simp
qed

lemma sequential_offsets_nth:
  "i < length cs \<Longrightarrow> sequential_offsets cs ! i = wrap_int (sum_list (map flat_size (take i cs)))"
  by (simp add: sequential_offsets_def)

lemma length_sequential_offsets: "length (sequential_offsets cs) = length cs"
  by (simp add: sequential_offsets_def)

lemma running_sum_step:
  assumes "i < length cs"
  shows "add_int (wrap_int (sum_list (map flat_size (take i cs)))) (vecprod (size_lin (cs ! i)))
         = wrap_int (sum_list (map flat_size (take (Suc i) cs)))"
proof -
  have "take (Suc i) cs = take i cs @ [cs ! i]"
    using assms by (simp add: take_Suc_conv_app_nth)
  then show ?thesis by (simp add: end_int wrap_int_add_left)
qed

lemma sequential_offsets_Suc:
  assumes "Suc i < length cs"
  shows "sequential_offsets cs ! Suc i =
         add_int (sequential_offsets cs ! i) (vecprod (size_lin (cs ! i)))"
  using assms by (simp add: sequential_offsets_nth running_sum_step)

lemma sequential_offsets_exact:
  assumes "\<forall>i<length cs. in_int (sum_list (map flat_size (take i cs)))"
  shows "sequential_offsets cs = map (\<lambda>i. sum_list (map flat_size (take i cs))) [0..<length cs]"
  using assms by (simp add: sequential_offsets_def wrap_int_id)

lemma sequential_offsets_valid:
  "\<exists>n. get_total_constraint_length_offsets cs (sequential_offsets cs) = Inr n"
proof -
  have "\<not> (\<exists>i. overlap_int cs (sequential_offsets cs) i)"
    by (auto simp: overlap_int_def length_sequential_offsets sequential_offsets_Suc)
  then show ?thesis
    by (simp add: get_total_constraint_length_offsets_int length_sequential_offsets)
qed

lemma build_loop_offsets_sequential:
  assumes "suffix = drop i cs"
  shows "build_loop_offsets ev cid vl (sequential_offsets cs) suffix i st =
         build_loop ev cid vl suffix (wrap_int (sum_list (map flat_size (take i cs)))) st"
  using assms
proof (induction suffix arbitrary: i st)
  case Nil
  then show ?case by simp
next
  case (Cons c rest)
  then have i: "i < length cs" and c: "c = cs ! i" and rest: "rest = drop (i + 1) cs"
    by (metis drop_eq_Nil list.distinct(1) not_le, metis Cons.prems nth_via_drop, metis Cons.prems Suc_eq_plus1 drop_Suc list.sel(3) tl_drop)
  obtain pd idc where st: "st = (pd, idc)" by (cases st)
  show ?case
    using Cons.IH[OF rest] i running_sum_step [OF i]
    by (simp add: st sequential_offsets_nth c)
qed

text \<open>
  C3. For every constraint list, variable-column width, column map and parameter-size
  map, \<open>build_matrix\<close> with explicit offsets equal to the sequential running sums returns
  exactly what the automatic-offset \<open>build_matrix\<close> returns on the same inputs (the same
  tensor, or the same failure of the tensor initialisation).
\<close>

theorem build_matrix_offsets_sequential:
  "build_matrix_offsets lin_to_tensor CONSTANT_ID constraints var_length id_to_col param_to_size
       (sequential_offsets constraints) =
   build_matrix lin_to_tensor CONSTANT_ID constraints var_length id_to_col param_to_size"
proof -
  obtain n where n: "get_total_constraint_length_offsets constraints (sequential_offsets constraints) = Inr n"
    using sequential_offsets_valid by blast
  have "build_loop_offsets lin_to_tensor CONSTANT_ID var_length (sequential_offsets constraints) constraints 0 st =
        build_loop lin_to_tensor CONSTANT_ID var_length constraints 0 st" for st
    using build_loop_offsets_sequential[of constraints 0 constraints]
    by (simp add: wrap_int_id in_int_def)
  then show ?thesis
    by (simp add: build_matrix_offsets_def build_matrix_def n split: sum.splits)
qed

section \<open>The tensor that build_matrix returns\<close>

lemma block_body_char:
  "block_body cid w vo vl block (probVec, idc) =
     (\<lparr>V = map val (nonZeros block),
       I = map (\<lambda>e. add_int (row e) vo) (nonZeros block),
       J = map (\<lambda>e. add_int (col e) (fst (horiz_offset_for cid w vl idc))) (nonZeros block)\<rparr>,
      probVec @ [empty_ProblemData],
      snd (horiz_offset_for cid w vl idc))"
  by (simp add: block_body_def empty_ProblemData_def add_matrix_to_vectors_def nonZeros_def
      outer_add_append split: prod.splits)

lemma coeffs_loop_tensor:
  "fst (coeffs_loop cid vo vl coeffs (pd, idc)) =
     (\<lambda>k. if k \<in> fst ` set coeffs then Some [] else pd k)"
proof (induction coeffs arbitrary: pd idc)
  case Nil
  then show ?case by simp
next
  case (Cons a coeffs)
  obtain p vm where a: "a = (p, vm)" by (cases a)
  obtain pv idc' where v: "var_map_loop cid vo vl vm ([], idc) = (pv, idc')"
    by (cases "var_map_loop cid vo vl vm ([], idc)")
  show ?case
    by (simp add: a v Cons.IH fun_eq_iff)
qed

lemma process_constraint_tensor:
  "fst (process_constraint ev cid lin pd vo vl idc) =
     (\<lambda>k. if k \<in> fst ` set (ev lin) then Some [] else pd k)"
  by (simp add: process_constraint_def coeffs_loop_tensor)

lemma build_loop_tensor:
  "fst (build_loop ev cid vl cs vo (pd, idc)) =
     (\<lambda>k. if \<exists>c\<in>set cs. k \<in> fst ` set (ev c) then Some [] else pd k)"
proof (induction cs arbitrary: vo pd idc)
  case Nil
  then show ?case by simp
next
  case (Cons c cs)
  obtain pd' idc' where p: "process_constraint ev cid c pd vo vl idc = (pd', idc')"
    by (cases "process_constraint ev cid c pd vo vl idc")
  then have "pd' = (\<lambda>k. if k \<in> fst ` set (ev c) then Some [] else pd k)"
    using process_constraint_tensor[of ev cid c pd vo vl idc] by simp
  then show ?case
    by (auto simp add: p Cons.IH fun_eq_iff)
qed

lemma build_loop_offsets_tensor:
  "fst (build_loop_offsets ev cid vl offs cs i (pd, idc)) =
     (\<lambda>k. if \<exists>c\<in>set cs. k \<in> fst ` set (ev c) then Some [] else pd k)"
proof (induction cs arbitrary: i pd idc)
  case Nil
  then show ?case by simp
next
  case (Cons c cs)
  obtain pd' idc' where p: "process_constraint ev cid c pd (offs ! i) vl idc = (pd', idc')"
    by (cases "process_constraint ev cid c pd (offs ! i) vl idc")
  then have "pd' = (\<lambda>k. if k \<in> fst ` set (ev c) then Some [] else pd k)"
    using process_constraint_tensor[of ev cid c pd "offs ! i" vl idc] by simp
  then show ?case
    by (auto simp add: p Cons.IH fun_eq_iff)
qed

lemma init_loop_char:
  "init_loop pts out =
     (if \<exists>n\<in>snd ` set pts. n < 0 then Inl VectorLength
      else Inr (\<lambda>k. case map_of (rev pts) k of
                       Some n \<Rightarrow> Some (replicate (nat n) empty_ProblemData)
                     | None \<Rightarrow> out k))"
proof (induction pts arbitrary: out)
  case Nil
  then show ?case by simp
next
  case (Cons a pts)
  obtain p n where a: "a = (p, n)" by (cases a)
  show ?case
    by (auto simp add: a Cons.IH fun_eq_iff map_add_def split: option.splits)
qed

lemma init_data_tensor_char:
  "init_data_tensor pts =
     (if \<exists>n\<in>snd ` set pts. n < 0 then Inl VectorLength
      else Inr (\<lambda>k. map_option (\<lambda>n. replicate (nat n) empty_ProblemData) (map_of (rev pts) k)))"
  by (auto simp add: init_data_tensor_def init_loop_char fun_eq_iff split: option.splits)

lemma build_matrix_char:
  "build_matrix ev cid cs vl idc pts =
     (if \<exists>n\<in>snd ` set pts. n < 0 then Inl VectorLength
      else Inr (\<lambda>k. if \<exists>c\<in>set cs. k \<in> fst ` set (ev c) then Some []
                     else map_option (\<lambda>n. replicate (nat n) empty_ProblemData)
                            (map_of (rev pts) k)))"
  by (simp add: build_matrix_def init_data_tensor_char build_loop_tensor)

lemma build_matrix_offsets_char:
  "build_matrix_offsets ev cid cs vl idc pts offs =
     (if \<exists>n\<in>snd ` set pts. n < 0 then Inl VectorLength
      else case get_total_constraint_length_offsets cs offs of
             Inl e \<Rightarrow> Inl e
           | Inr num_rows \<Rightarrow>
               Inr (\<lambda>k. if \<exists>c\<in>set cs. k \<in> fst ` set (ev c) then Some []
                         else map_option (\<lambda>n. replicate (nat n) empty_ProblemData)
                                (map_of (rev pts) k)))"
  by (simp add: build_matrix_offsets_def init_data_tensor_char build_loop_offsets_tensor
      split: sum.splits)

lemma no_triplets_char:
  "no_triplets (\<lambda>k. if P k then Some []
                     else map_option (\<lambda>n. replicate (nat n) empty_ProblemData) (m k))"
  by (auto simp: no_triplets_def empty_ProblemData_def split: if_splits)

text \<open>
  C1. For every parameter id that appears in the evaluator's result for at least one
  constraint, the tensor returned by \<open>build_matrix\<close>, by either entry point, maps that id
  to the empty sequence, and no Coordinate Data entry of the returned tensor holds a
  triplet. The mechanism: the loop body pushes the still empty record onto the local
  vector, and \<open>process_constraint\<close> leaves the empty vector in the slot of the id. The
  automatic entry point does return a tensor whenever no declared size is negative.
\<close>

theorem build_matrix_touched_slot_empty:
  assumes "constr \<in> set constraints" and "param_id \<in> fst ` set (lin_to_tensor constr)"
  shows "fst (snd (block_body CONSTANT_ID var_id vert_offset var_length block (probVec, id_to_col)))
           = probVec @ [empty_ProblemData]
    \<and> fst (process_constraint lin_to_tensor CONSTANT_ID constr problemData vert_offset
              var_length id_to_col) param_id = Some []
    \<and> (\<forall>T. build_matrix lin_to_tensor CONSTANT_ID constraints var_length id_to_col
               param_to_size = Inr T \<longrightarrow> T param_id = Some [] \<and> no_triplets T)
    \<and> (\<forall>T. build_matrix_offsets lin_to_tensor CONSTANT_ID constraints var_length id_to_col
               param_to_size constr_offsets = Inr T \<longrightarrow> T param_id = Some [] \<and> no_triplets T)
    \<and> ((\<forall>n\<in>snd ` set param_to_size. 0 \<le> n) \<longrightarrow>
         (\<exists>T. build_matrix lin_to_tensor CONSTANT_ID constraints var_length id_to_col
                 param_to_size = Inr T))"
proof -
  have t: "\<exists>c\<in>set constraints. param_id \<in> fst ` set (lin_to_tensor c)"
    using assms by blast
  have a: "fst (snd (block_body CONSTANT_ID var_id vert_offset var_length block (probVec, id_to_col)))
           = probVec @ [empty_ProblemData]"
    by (simp add: block_body_char)
  have b: "fst (process_constraint lin_to_tensor CONSTANT_ID constr problemData vert_offset
              var_length id_to_col) param_id = Some []"
    using assms(2) by (simp add: process_constraint_tensor)
  have c: "T param_id = Some [] \<and> no_triplets T"
    if "build_matrix lin_to_tensor CONSTANT_ID constraints var_length id_to_col
               param_to_size = Inr T" for T
  proof -
    from that have T: "T = (\<lambda>k. if \<exists>c\<in>set constraints. k \<in> fst ` set (lin_to_tensor c) then Some []
                     else map_option (\<lambda>n. replicate (nat n) empty_ProblemData)
                            (map_of (rev param_to_size) k))"
      by (simp add: build_matrix_char split: if_splits)
    show ?thesis
      using t by (subst (1 2) T) (simp add: no_triplets_char)
  qed
  have d: "T param_id = Some [] \<and> no_triplets T"
    if "build_matrix_offsets lin_to_tensor CONSTANT_ID constraints var_length id_to_col
               param_to_size constr_offsets = Inr T" for T
  proof -
    from that have T: "T = (\<lambda>k. if \<exists>c\<in>set constraints. k \<in> fst ` set (lin_to_tensor c) then Some []
                     else map_option (\<lambda>n. replicate (nat n) empty_ProblemData)
                            (map_of (rev param_to_size) k))"
      by (simp add: build_matrix_offsets_char split: if_splits sum.splits)
    show ?thesis
      using t by (subst (1 2) T) (simp add: no_triplets_char)
  qed
  have e: "(\<forall>n\<in>snd ` set param_to_size. 0 \<le> n) \<longrightarrow>
         (\<exists>T. build_matrix lin_to_tensor CONSTANT_ID constraints var_length id_to_col
                 param_to_size = Inr T)"
  proof
    assume "\<forall>n\<in>snd ` set param_to_size. 0 \<le> n"
    then have "\<not> (\<exists>n\<in>snd ` set param_to_size. n < 0)" by (meson not_le)
    then show "\<exists>T. build_matrix lin_to_tensor CONSTANT_ID constraints var_length id_to_col
                 param_to_size = Inr T"
      by (simp add: build_matrix_char)
  qed
  from a b c d e show ?thesis by blast
qed

theorem build_matrix_touched_slot_empty_witness:
  "(case build_matrix ex_lin_to_tensor (-1) [ex_lin] 3 Map.empty [(7, 2)] of
      Inl e \<Rightarrow> None | Inr T \<Rightarrow> T 7) = Some []
   \<and> (case build_matrix_offsets ex_lin_to_tensor (-1) [ex_lin] 3 Map.empty [(7, 2)] [0] of
      Inl e \<Rightarrow> None | Inr T \<Rightarrow> T 7) = Some []"
proof -
  have h1: "ex_lin \<in> set [ex_lin]" by simp
  have h2: "7 \<in> fst ` set (ex_lin_to_tensor ex_lin)" by (simp add: ex_lin_to_tensor_def)
  have v: "get_total_constraint_length_offsets [ex_lin] [0] = Inr 2"
    by (simp add: get_total_constraint_length_offsets_def offsets_loop.simps ex_lin_def vecprod_def
        add_int_def mul_int_def wrap_int_def)
  have i: "init_data_tensor [(7, 2)] = Inr [7 \<mapsto> replicate 2 (empty_ProblemData :: real ProblemData)]"
    by (simp add: init_data_tensor_def)
  show ?thesis
    using build_matrix_touched_slot_empty [where constr = ex_lin and constraints = "[ex_lin]"
        and param_id = 7 and lin_to_tensor = ex_lin_to_tensor and CONSTANT_ID = "-1"
        and var_length = 3 and id_to_col = Map.empty and param_to_size = "[(7, 2)]"
        and constr_offsets = "[0]" and var_id = 4 and vert_offset = 0 and block = ex_block
        and probVec = "[]" and problemData = Map.empty, OF h1 h2]
    by (simp add: build_matrix_def build_matrix_offsets_def v i split: sum.splits)
qed

text \<open>
  C2. The claim that every parameter id of the parameter-size map holds a sequence of its
  declared length fails on the code: with parameter 7 declared of size 2 and one
  constraint whose evaluation mentions parameter 7, the returned tensor holds a sequence
  of length 0 for it.
\<close>

theorem build_matrix_touched_slot_length:
  "build_matrix ex_lin_to_tensor (-1) [ex_lin] 3 Map.empty [(7, 2)] = Inr [7 \<mapsto> []]
   \<and> map_of [(7, 2 :: int)] (7 :: int) = Some 2"
  by (simp add: build_matrix_def init_data_tensor_def process_constraint_def ex_lin_to_tensor_def
      split: prod.splits)

text \<open>
  C4. The claim that the triplets of a block are recorded in the output at the columns
  from the horizontal offset on fails on the code: for the example block under
  \<open>CONSTANT_ID\<close> with variable-column width 3, the local record is filled with the
  triplet (5, 0, 3), column 3 being the one the claim names, but the returned tensor holds
  the empty sequence for the parameter, so no triplet of the block is recorded.
\<close>

theorem block_triplets_not_recorded:
  "fst (block_body (-1) (-1) 0 3 ex_block ([], Map.empty)) = \<lparr>V = [5], I = [0], J = [3]\<rparr>
   \<and> build_matrix ex_lin_to_tensor (-1) [ex_lin] 3 Map.empty [(7, 2)] = Inr [7 \<mapsto> []]"
  by (simp add: build_matrix_def init_data_tensor_def process_constraint_def ex_lin_to_tensor_def
      block_body_def horiz_offset_for_def add_matrix_to_vectors_def ex_block_def empty_ProblemData_def
      add_int_def wrap_int_def split: prod.splits)

text \<open>
  The columns written into the local record are the ones the offset rule gives, for a
  block whose stored columns lie inside it and sums that fit in \<open>int\<close>.
\<close>

lemma block_body_columns:
  assumes "\<forall>it\<in>set (nonZeros block). 0 \<le> col it \<and> col it < cols block"
    and "\<forall>it\<in>set (nonZeros block). in_int (col it + fst (horiz_offset_for cid w vl idc))"
    and "j \<in> set (J (fst (block_body cid w vo vl block (pv, idc))))"
  shows "fst (horiz_offset_for cid w vl idc) \<le> j \<and> j < fst (horiz_offset_for cid w vl idc) + cols block"
  using assms by (auto simp add: block_body_char add_int_exact)

section \<open>The column map\<close>

lemma horiz_offset_for_char:
  "horiz_offset_for cid w vl idc =
     (if w = cid then (vl, idc)
      else case idc w of Some c \<Rightarrow> (c, idc) | None \<Rightarrow> (0, idc(w \<mapsto> 0)))"
  by (simp add: horiz_offset_for_def index_or_insert_def)

lemma horiz_offset_for_map:
  "snd (horiz_offset_for cid w vl idc) =
     (if w \<noteq> cid \<and> idc w = None then idc(w \<mapsto> 0) else idc)"
  by (simp add: horiz_offset_for_char split: option.splits)

lemma blocks_loop_map:
  "snd (blocks_loop cid w vo vl blocks (pv, idc)) =
     (if blocks \<noteq> [] \<and> w \<noteq> cid \<and> idc w = None then idc(w \<mapsto> 0) else idc)"
proof (induction blocks arbitrary: pv idc)
  case Nil
  then show ?case by simp
next
  case (Cons b blocks)
  show ?case
    by (auto simp add: block_body_char Cons.IH horiz_offset_for_map fun_eq_iff)
qed

lemma looked_up_Nil: "\<not> looked_up cid [] w"
  by (simp add: looked_up_def)

lemma looked_up_Cons:
  "looked_up cid ((w', blocks) # vm) w \<longleftrightarrow> (w = w' \<and> w \<noteq> cid \<and> blocks \<noteq> []) \<or> looked_up cid vm w"
  by (auto simp: looked_up_def)

lemma var_map_loop_map:
  "snd (var_map_loop cid vo vl vm (pv, idc)) =
     (\<lambda>k. if idc k = None \<and> looked_up cid vm k then Some 0 else idc k)"
proof (induction vm arbitrary: pv idc)
  case Nil
  then show ?case by (simp add: looked_up_Nil)
next
  case (Cons a vm)
  obtain w blocks where a: "a = (w, blocks)" by (cases a)
  obtain pv' idc' where b: "blocks_loop cid w vo vl blocks (pv, idc) = (pv', idc')"
    by (cases "blocks_loop cid w vo vl blocks (pv, idc)")
  then have idc': "idc' = (if blocks \<noteq> [] \<and> w \<noteq> cid \<and> idc w = None then idc(w \<mapsto> 0) else idc)"
    using blocks_loop_map[of cid w vo vl blocks pv idc] by simp
  show ?case
    unfolding a var_map_loop.simps b Cons.IH
    by (auto simp add: idc' looked_up_Cons fun_eq_iff)
qed

lemma coeffs_loop_map:
  "snd (coeffs_loop cid vo vl coeffs (pd, idc)) =
     (\<lambda>k. if idc k = None \<and> (\<exists>vm\<in>snd ` set coeffs. looked_up cid vm k) then Some 0 else idc k)"
proof (induction coeffs arbitrary: pd idc)
  case Nil
  then show ?case by simp
next
  case (Cons a coeffs)
  obtain p vm where a: "a = (p, vm)" by (cases a)
  obtain pv idc' where v: "var_map_loop cid vo vl vm ([], idc) = (pv, idc')"
    by (cases "var_map_loop cid vo vl vm ([], idc)")
  then have idc': "idc' = (\<lambda>k. if idc k = None \<and> looked_up cid vm k then Some 0 else idc k)"
    using var_map_loop_map[of cid vo vl vm "[]" idc] by simp
  show ?case
    by (auto simp add: a v Cons.IH idc' fun_eq_iff)
qed

lemma process_constraint_map:
  "snd (process_constraint ev cid lin pd vo vl idc) =
     (\<lambda>k. if idc k = None \<and> (\<exists>vm\<in>snd ` set (ev lin). looked_up cid vm k) then Some 0 else idc k)"
  by (simp add: process_constraint_def coeffs_loop_map)

text \<open>
  C10. For a variable id other than \<open>CONSTANT_ID\<close> with no entry in the column map, the
  lookup yields the horizontal offset 0 and inserts the entry 0; the loop body builds the
  local record with that offset; after \<open>process_constraint\<close> the id is mapped to 0 when the
  evaluator returned it with at least one block, and the entries already present are
  kept. No error is raised: \<open>process_constraint\<close> has no failing path and \<open>build_matrix\<close>
  fails only in the tensor initialisation. \<open>build_matrix\<close> takes the column map by value
  and returns the tensor alone, so its caller's map is not changed.
\<close>

theorem undeclared_variable_offset_zero:
  assumes "var_id \<noteq> CONSTANT_ID" and "id_to_col var_id = None"
  shows "horiz_offset_for CONSTANT_ID var_id var_length id_to_col = (0, id_to_col(var_id \<mapsto> 0))
    \<and> block_body CONSTANT_ID var_id vert_offset var_length block (probVec, id_to_col) =
        (\<lparr>V = map val (nonZeros block),
          I = map (\<lambda>e. add_int (row e) vert_offset) (nonZeros block),
          J = map (\<lambda>e. add_int (col e) 0) (nonZeros block)\<rparr>,
         probVec @ [empty_ProblemData],
         id_to_col(var_id \<mapsto> 0))
    \<and> ((\<exists>var_map\<in>snd ` set (lin_to_tensor lin). looked_up CONSTANT_ID var_map var_id) \<longrightarrow>
         snd (process_constraint lin_to_tensor CONSTANT_ID lin problemData vert_offset
                var_length id_to_col) var_id = Some 0)
    \<and> (\<forall>k c. id_to_col k = Some c \<longrightarrow>
         snd (process_constraint lin_to_tensor CONSTANT_ID lin problemData vert_offset
                var_length id_to_col) k = Some c)
    \<and> (\<forall>e. build_matrix lin_to_tensor CONSTANT_ID constraints var_length id_to_col
               param_to_size = Inl e \<longrightarrow>
             e = VectorLength \<and> (\<exists>n\<in>snd ` set param_to_size. n < 0))"
proof -
  have a: "horiz_offset_for CONSTANT_ID var_id var_length id_to_col = (0, id_to_col(var_id \<mapsto> 0))"
    using assms by (simp add: horiz_offset_for_char)
  have b: "block_body CONSTANT_ID var_id vert_offset var_length block (probVec, id_to_col) =
        (\<lparr>V = map val (nonZeros block),
          I = map (\<lambda>e. add_int (row e) vert_offset) (nonZeros block),
          J = map (\<lambda>e. add_int (col e) 0) (nonZeros block)\<rparr>,
         probVec @ [empty_ProblemData],
         id_to_col(var_id \<mapsto> 0))"
    by (simp add: block_body_char a)
  have c: "(\<exists>var_map\<in>snd ` set (lin_to_tensor lin). looked_up CONSTANT_ID var_map var_id) \<longrightarrow>
         snd (process_constraint lin_to_tensor CONSTANT_ID lin problemData vert_offset
                var_length id_to_col) var_id = Some 0"
    using assms(2) by (simp add: process_constraint_map)
  have d: "\<forall>k c. id_to_col k = Some c \<longrightarrow>
         snd (process_constraint lin_to_tensor CONSTANT_ID lin problemData vert_offset
                var_length id_to_col) k = Some c"
    by (simp add: process_constraint_map)
  have e: "\<forall>e. build_matrix lin_to_tensor CONSTANT_ID constraints var_length id_to_col
               param_to_size = Inl e \<longrightarrow>
             e = VectorLength \<and> (\<exists>n\<in>snd ` set param_to_size. n < 0)"
    by (simp add: build_matrix_char split: if_splits)
  from a b c d e show ?thesis by blast
qed

theorem undeclared_variable_offset_zero_witness:
  "horiz_offset_for (-1) 4 3 Map.empty = (0, [4 \<mapsto> 0])
   \<and> snd (process_constraint ex_lin_to_tensor (-1) ex_lin Map.empty 0 3 Map.empty) 4 = Some 0
   \<and> J (fst (block_body (-1) 4 0 3 ex_block ([], Map.empty))) = [0]"
proof -
  have h1: "(4 :: int) \<noteq> -1" by simp
  have h2: "(Map.empty :: int \<rightharpoonup> int) 4 = None" by simp
  have l: "\<exists>var_map\<in>snd ` set (ex_lin_to_tensor ex_lin). looked_up (-1) var_map 4"
    by (simp add: ex_lin_to_tensor_def looked_up_def)
  show ?thesis
    using undeclared_variable_offset_zero [OF h1 h2, where lin_to_tensor = ex_lin_to_tensor
        and lin = ex_lin and var_length = 3 and vert_offset = 0 and block = ex_block
        and probVec = "[]" and problemData = Map.empty and constraints = "[ex_lin]"
        and param_to_size = "[(7, 2)]"] l
    by (simp add: nonZeros_def ex_block_def add_int_def wrap_int_def)
qed

section \<open>Properties of extend_constant_vec\<close>

lemma added_at_Cons:
  "added_at rws vo (it # its) p =
     (if add_int (add_int vo (mul_int (col it) rws)) (row it) = int p
      then val it # added_at rws vo its p
      else added_at rws vo its p)"
  by (simp add: added_at_def)

lemma added_at_append: "added_at rws vo (xs @ ys) p = added_at rws vo xs p @ added_at rws vo ys p"
  by (simp add: added_at_def)

lemma inner_extend_char:
  "inner_extend its rws vo cv =
     (if \<forall>it\<in>set its. in_range rws vo (length cv) it
      then Inr (map (\<lambda>p. foldl (+) (cv ! p) (added_at rws vo its p)) [0..<length cv])
      else Inl IndexOutOfRange)"
proof (induction its arbitrary: cv)
  case Nil
  then show ?case by (simp add: added_at_def map_nth)
next
  case (Cons it its)
  let ?idx = "add_int (add_int vo (mul_int (col it) rws)) (row it)"
  show ?case
  proof (cases "in_range rws vo (length cv) it")
    case False
    then have "\<not> (0 \<le> ?idx \<and> ?idx < int (length cv))"
      by (simp add: in_range_def)
    then have "inner_extend (it # its) rws vo cv = Inl IndexOutOfRange"
      by (auto simp add: Let_def)
    moreover have "\<not> (\<forall>x\<in>set (it # its). in_range rws vo (length cv) x)"
      using False by simp
    ultimately show ?thesis by simp
  next
    case True
    let ?cv = "cv[nat ?idx := cv ! nat ?idx + val it]"
    have "0 \<le> ?idx \<and> ?idx < int (length cv)"
      using True by (simp add: in_range_def)
    then have step: "inner_extend (it # its) rws vo cv = inner_extend its rws vo ?cv"
      by (simp add: Let_def)
    have pt: "foldl (+) (?cv ! p) (added_at rws vo its p) =
              foldl (+) (cv ! p) (added_at rws vo (it # its) p)" if "p < length cv" for p
    proof (cases "?idx = int p")
      case eq: True
      then have "nat ?idx = p" by simp
      then show ?thesis using that eq by (simp add: added_at_Cons)
    next
      case ne: False
      then have "nat ?idx \<noteq> p" using True by (auto simp: in_range_def)
      then show ?thesis using ne by (simp add: added_at_Cons)
    qed
    have "map (\<lambda>p. foldl (+) (?cv ! p) (added_at rws vo its p)) [0..<length cv] =
          map (\<lambda>p. foldl (+) (cv ! p) (added_at rws vo (it # its) p)) [0..<length cv]"
      by (rule map_cong) (simp_all add: pt)
    then show ?thesis
      unfolding step using True by (simp add: Cons.IH)
  qed
qed

lemma outer_extend_char:
  "outer_extend os rws vo cv =
     (if \<forall>it\<in>set (concat os). in_range rws vo (length cv) it
      then Inr (map (\<lambda>p. foldl (+) (cv ! p) (added_at rws vo (concat os) p)) [0..<length cv])
      else Inl IndexOutOfRange)"
proof (induction os arbitrary: cv)
  case Nil
  then show ?case by (simp add: added_at_def map_nth)
next
  case (Cons inner os)
  show ?case
  proof (cases "\<forall>it\<in>set inner. in_range rws vo (length cv) it")
    case False
    then show ?thesis by (auto simp add: inner_extend_char)
  next
    case True
    let ?cv = "map (\<lambda>p. foldl (+) (cv ! p) (added_at rws vo inner p)) [0..<length cv]"
    have step: "outer_extend (inner # os) rws vo cv = outer_extend os rws vo ?cv"
      using True by (simp add: inner_extend_char)
    have "map (\<lambda>p. foldl (+) (?cv ! p) (added_at rws vo (concat os) p)) [0..<length cv] =
          map (\<lambda>p. foldl (+) (cv ! p) (added_at rws vo (concat (inner # os)) p)) [0..<length cv]"
      by (rule map_cong) (simp_all add: added_at_append)
    then show ?thesis
      unfolding step using True by (auto simp add: Cons.IH)
  qed
qed

lemma extend_constant_vec_char:
  "extend_constant_vec cv vo block =
     (if \<forall>it\<in>set (nonZeros block). in_range (rows block) vo (length cv) it
      then Inr (map (\<lambda>p. foldl (+) (cv ! p) (added_at (rows block) vo (nonZeros block) p))
                  [0..<length cv])
      else Inl IndexOutOfRange)"
  by (simp add: extend_constant_vec_def nonZeros_def outer_extend_char)

lemma added_values_added_at:
  "added_values block vo p = added_at (rows block) vo (nonZeros block) p"
  by (simp add: added_values_def added_at_def flat_index_def)

lemma in_range_flat_index:
  "in_range (rows block) vo n it \<longleftrightarrow>
     0 \<le> flat_index block vo it \<and> flat_index block vo it < int n"
  by (simp add: in_range_def flat_index_def)

text \<open>
  C8. When every flattened index \<open>vert_offset + col * rows + row\<close> of the block, computed
  in \<open>int\<close>, lies inside the dense vector, \<open>extend_constant_vec\<close> returns the vector in which each position
  holds its old value with the values of the entries at that flattened index added to it,
  in traversal order; a position that no entry maps to keeps its value. Applying a second
  block at the same offset adds its values on top. In the example, blocks with the values
  3 and -1 at flattened index 0 take a zero vector to 3 and then to 2 at position 0.
\<close>

theorem extend_constant_vec_accumulates:
  assumes "\<forall>it\<in>set (nonZeros block).
             0 \<le> flat_index block vert_offset it \<and>
             flat_index block vert_offset it < int (length const_vec)"
  shows "extend_constant_vec const_vec vert_offset block =
           Inr (map (\<lambda>p. foldl (+) (const_vec ! p) (added_values block vert_offset p))
                  [0..<length const_vec])
    \<and> ((\<forall>it\<in>set (nonZeros block2).
             0 \<le> flat_index block2 vert_offset it \<and>
             flat_index block2 vert_offset it < int (length const_vec)) \<longrightarrow>
        (\<exists>const_vec1.
            extend_constant_vec const_vec vert_offset block = Inr const_vec1 \<and>
            extend_constant_vec const_vec1 vert_offset block2 =
              Inr (map (\<lambda>p. foldl (+) (const_vec ! p)
                             (added_values block vert_offset p @ added_values block2 vert_offset p))
                     [0..<length const_vec])))"
proof -
  let ?cv1 = "map (\<lambda>p. foldl (+) (const_vec ! p) (added_values block vert_offset p))
                  [0..<length const_vec]"
  have r1: "\<forall>it\<in>set (nonZeros block). in_range (rows block) vert_offset (length const_vec) it"
    using assms by (simp add: in_range_flat_index)
  have one: "extend_constant_vec const_vec vert_offset block = Inr ?cv1"
    using r1 by (simp add: extend_constant_vec_char added_values_added_at)
  have two: "extend_constant_vec ?cv1 vert_offset block2 =
              Inr (map (\<lambda>p. foldl (+) (const_vec ! p)
                             (added_values block vert_offset p @ added_values block2 vert_offset p))
                     [0..<length const_vec])"
    if "\<forall>it\<in>set (nonZeros block2).
             0 \<le> flat_index block2 vert_offset it \<and>
             flat_index block2 vert_offset it < int (length const_vec)"
  proof -
    have r2: "\<forall>it\<in>set (nonZeros block2). in_range (rows block2) vert_offset (length ?cv1) it"
      using that by (simp add: in_range_flat_index)
    have "map (\<lambda>p. foldl (+) (?cv1 ! p) (added_values block2 vert_offset p)) [0..<length const_vec]
        = map (\<lambda>p. foldl (+) (const_vec ! p)
                             (added_values block vert_offset p @ added_values block2 vert_offset p))
                     [0..<length const_vec]"
      by (rule map_cong) simp_all
    then show ?thesis
      using r2 by (simp add: extend_constant_vec_char added_values_added_at)
  qed
  from one two show ?thesis by blast
qed

theorem extend_constant_vec_accumulates_witness:
  "extend_constant_vec [0, 0 :: real] 0 ex_block_3 = Inr [3, 0]
   \<and> extend_constant_vec [3, 0 :: real] 0 ex_block_m1 = Inr [2, 0]"
proof -
  have h1: "\<forall>it\<in>set (nonZeros ex_block_3).
             0 \<le> flat_index ex_block_3 0 it \<and> flat_index ex_block_3 0 it < int (length [0, 0 :: real])"
    by (simp add: nonZeros_def ex_block_3_def flat_index_def add_int_def mul_int_def wrap_int_def)
  have h2: "\<forall>it\<in>set (nonZeros ex_block_m1).
             0 \<le> flat_index ex_block_m1 0 it \<and> flat_index ex_block_m1 0 it < int (length [0, 0 :: real])"
    by (simp add: nonZeros_def ex_block_m1_def flat_index_def add_int_def mul_int_def wrap_int_def)
  have u: "[0..<2] = [0, 1]" by (simp add: upt_rec)
  show ?thesis
    using extend_constant_vec_accumulates [OF h1, of ex_block_m1] h2
    by (auto simp add: added_values_def nonZeros_def ex_block_3_def ex_block_m1_def flat_index_def u
        add_int_def mul_int_def wrap_int_def)
qed

section \<open>Invalid explicit offsets\<close>

text \<open>
  C6, as amended. When the offsets have the wrong length, or have the right length and
  some next offset is strictly less than an offset plus the flattened size of its
  constraint, the explicit-offset \<open>build_matrix\<close> returns no tensor: it fails with the
  length mismatch error, respectively the ordering error, unless a declared parameter size
  is negative, in which case the tensor initialisation has failed before. Offsets of the
  right length without overlap, gaps included, are accepted: the build returns a tensor
  when no declared size is negative. For offsets of the right length this is under the
  hypothesis that the end of every constraint, its offset plus its flattened size, fits
  in \<open>int\<close>.
\<close>

theorem build_matrix_offsets_invalid:
  "(length constr_offsets \<noteq> length constraints \<longrightarrow>
      build_matrix_offsets lin_to_tensor CONSTANT_ID constraints var_length id_to_col
          param_to_size constr_offsets =
        Inl (if \<exists>n\<in>snd ` set param_to_size. n < 0 then VectorLength else LengthMismatch))
   \<and> (length constr_offsets = length constraints \<and> ends_in_int constraints constr_offsets
        \<and> (\<exists>i. overlap_at constraints constr_offsets i) \<longrightarrow>
      build_matrix_offsets lin_to_tensor CONSTANT_ID constraints var_length id_to_col
          param_to_size constr_offsets =
        Inl (if \<exists>n\<in>snd ` set param_to_size. n < 0 then VectorLength else NotMonotone))
   \<and> (length constr_offsets = length constraints \<and> ends_in_int constraints constr_offsets
        \<and> \<not> (\<exists>i. overlap_at constraints constr_offsets i)
        \<and> \<not> (\<exists>n\<in>snd ` set param_to_size. n < 0) \<longrightarrow>
      (\<exists>T. build_matrix_offsets lin_to_tensor CONSTANT_ID constraints var_length id_to_col
          param_to_size constr_offsets = Inr T))"
proof -
  have a: "length constr_offsets \<noteq> length constraints \<longrightarrow>
      build_matrix_offsets lin_to_tensor CONSTANT_ID constraints var_length id_to_col
          param_to_size constr_offsets =
        Inl (if \<exists>n\<in>snd ` set param_to_size. n < 0 then VectorLength else LengthMismatch)"
    by (simp add: build_matrix_offsets_char get_total_constraint_length_offsets_int)
  have o: "(\<exists>i. overlap_int constraints constr_offsets i) \<longleftrightarrow>
           (\<exists>i. overlap_at constraints constr_offsets i)"
    if "length constr_offsets = length constraints" "ends_in_int constraints constr_offsets"
    using overlap_int_exact [OF that(2) that(1)] by simp
  have b: "length constr_offsets = length constraints \<and> ends_in_int constraints constr_offsets
        \<and> (\<exists>i. overlap_at constraints constr_offsets i) \<longrightarrow>
      build_matrix_offsets lin_to_tensor CONSTANT_ID constraints var_length id_to_col
          param_to_size constr_offsets =
        Inl (if \<exists>n\<in>snd ` set param_to_size. n < 0 then VectorLength else NotMonotone)"
    using o by (simp add: build_matrix_offsets_char get_total_constraint_length_offsets_int)
  have c: "length constr_offsets = length constraints \<and> ends_in_int constraints constr_offsets
        \<and> \<not> (\<exists>i. overlap_at constraints constr_offsets i)
        \<and> \<not> (\<exists>n\<in>snd ` set param_to_size. n < 0) \<longrightarrow>
      (\<exists>T. build_matrix_offsets lin_to_tensor CONSTANT_ID constraints var_length id_to_col
          param_to_size constr_offsets = Inr T)"
    using o by (simp add: build_matrix_offsets_char get_total_constraint_length_offsets_int)
  from a b c show ?thesis by blast
qed

theorem build_matrix_offsets_invalid_witness:
  "build_matrix_offsets ex_lin_to_tensor (-1) [ex_lin, ex_lin3] 3 Map.empty [(7, 2)] [0, 1]
     = Inl NotMonotone
   \<and> build_matrix_offsets ex_lin_to_tensor (-1) [ex_lin, ex_lin3] 3 Map.empty [(7, 2)] [0]
     = Inl LengthMismatch"
proof -
  have f: "flat_size ex_lin = 2" "flat_size ex_lin3 = 3"
    by (simp_all add: flat_size_def ex_lin_def ex_lin3_def)
  have o: "overlap_at [ex_lin, ex_lin3] [0, 1] 0"
    by (simp add: overlap_at_def f)
  have e: "ends_in_int [ex_lin, ex_lin3] [0, 1]"
    by (auto simp add: ends_in_int_def f in_int_def less_Suc_eq nth_Cons')
  show ?thesis
    using build_matrix_offsets_invalid [of "[0, 1]" "[ex_lin, ex_lin3]" ex_lin_to_tensor "-1" 3
        Map.empty "[(7, 2)]"]
      build_matrix_offsets_invalid [of "[0]" "[ex_lin, ex_lin3]" ex_lin_to_tensor "-1" 3
        Map.empty "[(7, 2)]"] o e
    by auto
qed

text \<open>
  C6 as stated fails: the offsets 0 and 5 for constraints of flattened sizes 2 and 3 leave
  a gap, and the build raises no error.
\<close>

theorem build_matrix_offsets_gap_accepted:
  "[0, 5 :: int] ! 1 > [0, 5] ! 0 + flat_size ex_lin
   \<and> build_matrix_offsets ex_lin_to_tensor (-1) [ex_lin, ex_lin3] 3 Map.empty [(7, 2)] [0, 5]
       = Inr [7 \<mapsto> []]"
  by (simp add: build_matrix_offsets_def init_data_tensor_def get_total_constraint_length_offsets_def
      offsets_loop.simps flat_size_def ex_lin_def ex_lin3_def vecprod_def process_constraint_def
      ex_lin_to_tensor_def add_int_def mul_int_def wrap_int_def split: prod.splits)

section \<open>Beyond the range of int\<close>

text \<open>
  Where a mathematical sum does not fit in \<open>int\<close>, the functions return what the
  wrap-around gives: the total of the flattened sizes 2147483647 and 1 is -2147483648;
  the offsets 2147483647 and 0 for flattened sizes 2 and 1 pass the validation, the end
  of the first constraint being computed as -2147483647; the row 1 at vertical offset
  2147483647 is recorded as -2147483648.
\<close>

lemma get_total_constraint_length_wraps:
  "get_total_constraint_length
     [\<lparr>size_lin = [2147483647], node = ()\<rparr>, \<lparr>size_lin = [1], node = ()\<rparr>] = - 2147483648"
  by (simp add: get_total_constraint_length_def vecprod_def add_int_def mul_int_def wrap_int_def)

lemma get_total_constraint_length_offsets_wraps:
  "get_total_constraint_length_offsets
     [\<lparr>size_lin = [2], node = ()\<rparr>, \<lparr>size_lin = [1], node = ()\<rparr>] [2147483647, 0] = Inr 1"
  by (simp add: get_total_constraint_length_offsets_def offsets_loop.simps vecprod_def
      add_int_def mul_int_def wrap_int_def)

lemma add_matrix_to_vectors_wraps:
  "add_matrix_to_vectors
     \<lparr>rows = 2, cols = 1, outer = [[\<lparr>row = 1, col = 0, val = 5 :: real\<rparr>]]\<rparr>
     ([], [], []) 2147483647 0 = ([5], [- 2147483648], [0])"
  by (simp add: add_matrix_to_vectors_def add_int_def wrap_int_def)

end
